theory Spec2Isabelle
  imports Complex_Main
begin

section \<open>JavaScript values\<close>

text \<open>
  A JavaScript string is a sequence of UTF-16 code units. The units of the review
  time strings lie outside ASCII, so a string is a list of code-unit numbers;
  \<open>ustr\<close> turns an ASCII literal of the source into such a list.
\<close>

type_synonym jstring = "nat list"

definition ustr :: "string \<Rightarrow> jstring" where
  "ustr s = map of_char s"

text \<open>
  A Number is NaN, an infinity or a finite double, and a finite double is given
  by its exact value, a rational. The sign of zero is not modelled.
\<close>

datatype number = NaN | PosInf | NegInf | Fin rat

text \<open>
  \<open>round_double\<close> is the Number for a real value: the nearest double, a tie
  going to the even significand, with 53 bits of significand down to the
  exponent -1022 and multiples of \<open>pow2 (- 1074)\<close> below, and an infinity
  when the rounded magnitude reaches \<open>pow2 1024\<close>.
\<close>

fun bit_length :: "nat \<Rightarrow> nat" where
  "bit_length n = (if n = 0 then 0 else Suc (bit_length (n div 2)))"

declare bit_length.simps [simp del]

definition pow2 :: "int \<Rightarrow> rat" where
  "pow2 k = 2 powi k"

definition round_half_even :: "rat \<Rightarrow> int" where
  "round_half_even x =
     (if x - of_int \<lfloor>x\<rfloor> < 1 / 2 then \<lfloor>x\<rfloor>
      else if 1 / 2 < x - of_int \<lfloor>x\<rfloor> then \<lfloor>x\<rfloor> + 1
      else if even \<lfloor>x\<rfloor> then \<lfloor>x\<rfloor> else \<lfloor>x\<rfloor> + 1)"

text \<open>The exponent \<open>e\<close> of a positive value \<open>a\<close>: \<open>pow2 e \<le> a < pow2 (e + 1)\<close>.\<close>

definition binary_exponent :: "rat \<Rightarrow> int" where
  "binary_exponent a =
     (if 1 \<le> a then int (bit_length (nat \<lfloor>a\<rfloor>)) - 1
      else - int (bit_length (nat (\<lceil>1 / a\<rceil> - 1))))"

definition round_to_quantum :: "rat \<Rightarrow> int \<Rightarrow> rat" where
  "round_to_quantum a k = of_int (round_half_even (a / pow2 k)) * pow2 k"

definition round_magnitude :: "rat \<Rightarrow> rat option" where
  "round_magnitude a =
     (if pow2 1024 \<le> a then None
      else if pow2 1024 \<le> round_to_quantum a (max (binary_exponent a) (- 1022) - 52) then None
      else Some (round_to_quantum a (max (binary_exponent a) (- 1022) - 52)))"

definition round_double :: "rat \<Rightarrow> number" where
  "round_double r =
     (if r = 0 then Fin 0
      else case round_magnitude \<bar>r\<bar> of
        None \<Rightarrow> (if r < 0 then NegInf else PosInf)
      | Some v \<Rightarrow> Fin (if r < 0 then - v else v))"

text \<open>
  A value that JSON can carry, as the program holds it in memory. An object is
  the list of its own properties in enumeration order. \<open>undefined\<close> is not such
  a value: the result of a property read is a \<open>json option\<close>, with \<open>None\<close> for
  \<open>undefined\<close>.
\<close>

datatype json =
    JNull
  | JBool bool
  | JNum number
  | JStr jstring
  | JArr "json list"
  | JObj "(jstring \<times> json) list"

type_synonym jsval = "json option"

text \<open>
  What leaves a request handler other than a response of its own: an exception
  thrown in the handler, or an error the upload middleware hands to the
  framework before the handler runs.
\<close>

datatype multer_code = LIMIT_UNEXPECTED_FILE | LIMIT_FILE_COUNT | LIMIT_FILE_SIZE

datatype error = TypeError | MulterError multer_code | FilterError | DestinationError

definition bind_err :: "error + 'a \<Rightarrow> ('a \<Rightarrow> error + 'b) \<Rightarrow> error + 'b" where
  "bind_err m f = (case m of Inl e \<Rightarrow> Inl e | Inr x \<Rightarrow> f x)"

text \<open>ToBoolean.\<close>

fun num_truthy :: "number \<Rightarrow> bool" where
  "num_truthy NaN = False"
| "num_truthy (Fin r) = (r \<noteq> 0)"
| "num_truthy PosInf = True"
| "num_truthy NegInf = True"

fun truthy_json :: "json \<Rightarrow> bool" where
  "truthy_json JNull = False"
| "truthy_json (JBool b) = b"
| "truthy_json (JNum n) = num_truthy n"
| "truthy_json (JStr s) = (s \<noteq> [])"
| "truthy_json (JArr xs) = True"
| "truthy_json (JObj kvs) = True"

fun truthy :: "jsval \<Rightarrow> bool" where
  "truthy None = False"
| "truthy (Some v) = truthy_json v"

text \<open>\<open>a || b\<close> on a value that may be undefined, and on numbers.\<close>

definition js_or :: "jsval \<Rightarrow> json \<Rightarrow> json" where
  "js_or v d = (case v of None \<Rightarrow> d | Some x \<Rightarrow> if truthy_json x then x else d)"

definition num_or :: "number \<Rightarrow> number \<Rightarrow> number" where
  "num_or a b = (if num_truthy a then a else b)"

text \<open>Addition, subtraction and the comparisons of Numbers (IEEE rules for NaN and infinities).\<close>

fun num_neg :: "number \<Rightarrow> number" where
  "num_neg NaN = NaN"
| "num_neg PosInf = NegInf"
| "num_neg NegInf = PosInf"
| "num_neg (Fin r) = Fin (- r)"

fun num_add :: "number \<Rightarrow> number \<Rightarrow> number" where
  "num_add NaN b = NaN"
| "num_add a NaN = NaN"
| "num_add (Fin a) (Fin b) = round_double (a + b)"
| "num_add PosInf NegInf = NaN"
| "num_add NegInf PosInf = NaN"
| "num_add PosInf b = PosInf"
| "num_add NegInf b = NegInf"
| "num_add (Fin a) b = b"

definition num_sub :: "number \<Rightarrow> number \<Rightarrow> number" where
  "num_sub a b = num_add a (num_neg b)"

fun num_lt :: "number \<Rightarrow> number \<Rightarrow> bool" where
  "num_lt NaN b = False"
| "num_lt a NaN = False"
| "num_lt (Fin a) (Fin b) = (a < b)"
| "num_lt PosInf b = False"
| "num_lt a PosInf = True"
| "num_lt NegInf NegInf = False"
| "num_lt NegInf b = True"
| "num_lt (Fin a) NegInf = False"

fun num_ge :: "number \<Rightarrow> number \<Rightarrow> bool" where
  "num_ge NaN b = False"
| "num_ge a NaN = False"
| "num_ge a b = (\<not> num_lt a b)"

text \<open>
  Property read \<open>v.k\<close> for the property names this program reads. Reading a
  property of \<open>null\<close> throws; a boolean, number, string or array has none of
  these names, so the read gives \<open>undefined\<close>.
\<close>

fun obj_get :: "json \<Rightarrow> jstring \<Rightarrow> jsval" where
  "obj_get (JObj kvs) k = map_of kvs k"
| "obj_get v k = None"


fun isArray :: "jsval \<Rightarrow> bool" where
  "isArray (Some (JArr xs)) = True"
| "isArray v = False"

section \<open>JSON text\<close>

text \<open>
  The body of a request as \<open>express.json\<close> hands it to a handler, for a body
  whose numbers are written with their exact values: \<open>JSON.parse\<close> reads every
  number as the nearest double, and as an infinity when it is too large.
\<close>

fun express_json :: "json \<Rightarrow> json" where
  "express_json (JNum n) = JNum (case n of Fin r \<Rightarrow> round_double r | _ \<Rightarrow> n)"
| "express_json (JArr xs) = JArr (map express_json xs)"
| "express_json (JObj kvs) = JObj (map (\<lambda>kv. (fst kv, express_json (snd kv))) kvs)"
| "express_json v = v"

text \<open>
  A value as \<open>JSON.stringify\<close> writes it and \<open>JSON.parse\<close> reads it back, which
  is what a written file holds and what \<open>res.json\<close> sends: a Number that is not
  finite becomes \<open>null\<close>, and a finite double is read back as it is.
\<close>

fun serialize :: "json \<Rightarrow> json" where
  "serialize (JNum n) = (case n of Fin r \<Rightarrow> JNum (Fin r) | _ \<Rightarrow> JNull)"
| "serialize (JArr xs) = JArr (map serialize xs)"
| "serialize (JObj kvs) = JObj (map (\<lambda>kv. (fst kv, serialize (snd kv))) kvs)"
| "serialize v = v"

section \<open>parseInt\<close>

text \<open>
  \<open>parseInt(string)\<close> with no radix: leading white space is skipped, a sign
  is read, a \<open>0x\<close> or \<open>0X\<close> prefix selects radix 16, and the longest run of
  digits is read; an empty run gives NaN, and the result is the Number for the
  integer read.
\<close>

definition is_ws :: "nat \<Rightarrow> bool" where
  "is_ws c \<longleftrightarrow> c \<in> {9, 10, 11, 12, 13, 32, 160, 5760, 8232, 8233, 8239, 8287, 12288, 65279}
     \<or> (8192 \<le> c \<and> c \<le> 8202)"

definition digit_val :: "nat \<Rightarrow> nat option" where
  "digit_val c =
     (if 48 \<le> c \<and> c \<le> 57 then Some (c - 48)
      else if 97 \<le> c \<and> c \<le> 122 then Some (c - 87)
      else if 65 \<le> c \<and> c \<le> 90 then Some (c - 55)
      else None)"

definition is_digit :: "nat \<Rightarrow> nat \<Rightarrow> bool" where
  "is_digit R c = (case digit_val c of None \<Rightarrow> False | Some d \<Rightarrow> d < R)"

definition digits_value :: "nat \<Rightarrow> jstring \<Rightarrow> nat" where
  "digits_value R Z = foldl (\<lambda>acc c. acc * R + the (digit_val c)) 0 Z"

definition parseInt :: "jstring \<Rightarrow> number" where
  "parseInt inputString =
     (let S = dropWhile is_ws inputString;
          sign = (case S of c # r \<Rightarrow> if c = 45 then - 1 else 1 | [] \<Rightarrow> (1::int));
          S1 = (case S of c # r \<Rightarrow> if c = 45 \<or> c = 43 then r else S | [] \<Rightarrow> S);
          hex = (case S1 of a # b # r \<Rightarrow> a = 48 \<and> (b = 120 \<or> b = 88) | _ \<Rightarrow> False);
          R = (if hex then 16 else 10);
          S2 = (if hex then drop 2 S1 else S1);
          Z = takeWhile (is_digit R) S2
      in if Z = [] then NaN else round_double (of_int (sign * int (digits_value R Z))))"

section \<open>The runtime\<close>

text \<open>
  What the program takes from its runtime and environment and this development
  does not compute: the text of a finite Number, the conversions from text to a
  floating-point Number, the order in which the engine leaves an array that it
  sorts with a comparator that is not consistent, the resolution of a path
  against the server directory, and whether the file system lets a file be
  removed or a document be written.
\<close>

record runtime =
  number_to_string :: "rat \<Rightarrow> jstring"
  string_to_number :: "jstring \<Rightarrow> number"
  parseFloat :: "jstring \<Rightarrow> number"
  engine_sort :: "(json \<Rightarrow> json \<Rightarrow> number) \<Rightarrow> json list \<Rightarrow> json list"
  path_resolve :: "jstring \<Rightarrow> jstring"
  unlink_ok :: "jstring \<Rightarrow> bool"
  write_ok :: bool

text \<open>
  ToString of a value. An array joins the texts of its elements with commas,
  \<open>null\<close> elements giving the empty text. An object gives \<open>[object Object]\<close>
  through the method it inherits; when it has an own property \<open>toString\<close>,
  which in a JSON value is no function, the conversion throws.
\<close>

fun join_comma :: "jstring list \<Rightarrow> jstring" where
  "join_comma [] = []"
| "join_comma [s] = s"
| "join_comma (s # t # ss) = s @ [44] @ join_comma (t # ss)"

definition number_text :: "runtime \<Rightarrow> number \<Rightarrow> jstring" where
  "number_text rt n =
     (case n of
        NaN \<Rightarrow> ustr ''NaN''
      | PosInf \<Rightarrow> ustr ''Infinity''
      | NegInf \<Rightarrow> ustr ''-Infinity''
      | Fin r \<Rightarrow> number_to_string rt r)"

fun toString :: "runtime \<Rightarrow> json \<Rightarrow> error + jstring"
  and toString_elements :: "runtime \<Rightarrow> json list \<Rightarrow> error + jstring list" where
  "toString rt JNull = Inr (ustr ''null'')"
| "toString rt (JBool b) = Inr (if b then ustr ''true'' else ustr ''false'')"
| "toString rt (JNum n) = Inr (number_text rt n)"
| "toString rt (JStr s) = Inr s"
| "toString rt (JArr xs) = bind_err (toString_elements rt xs) (\<lambda>ss. Inr (join_comma ss))"
| "toString rt (JObj kvs) =
     (if map_of kvs (ustr ''toString'') \<noteq> None then Inl TypeError
      else Inr (ustr ''[object Object]''))"
| "toString_elements rt [] = Inr []"
| "toString_elements rt (x # xs) =
     bind_err (if x = JNull then Inr [] else toString rt x) (\<lambda>s.
     bind_err (toString_elements rt xs) (\<lambda>ss. Inr (s # ss)))"

definition toString_val :: "runtime \<Rightarrow> jsval \<Rightarrow> error + jstring" where
  "toString_val rt v = (case v of None \<Rightarrow> Inr (ustr ''undefined'') | Some x \<Rightarrow> toString rt x)"

section \<open>The recency score of the review sorter\<close>

definition unit_week :: nat where "unit_week = 21608"
definition unit_month :: nat where "unit_month = 26376"
definition unit_year :: nat where "unit_year = 24180"

text \<open>
  \<open>timeStr.includes(unit)\<close>: a string has the unit among its code units, an
  array has the one-unit string among its elements, and no other truthy JSON
  value has an \<open>includes\<close> method.
\<close>

fun js_includes :: "json \<Rightarrow> nat \<Rightarrow> error + bool" where
  "js_includes (JStr s) u = Inr (u \<in> set s)"
| "js_includes (JArr xs) u = Inr (JStr [u] \<in> set xs)"
| "js_includes v u = Inl TypeError"

text \<open>\<open>parseInt(timeStr) || d\<close>.\<close>

definition parseInt_or :: "runtime \<Rightarrow> jsval \<Rightarrow> number \<Rightarrow> error + number" where
  "parseInt_or rt v d = bind_err (toString_val rt v) (\<lambda>t. Inr (num_or (parseInt t) d))"

definition getTimeScore :: "runtime \<Rightarrow> jsval \<Rightarrow> error + number" where
  "getTimeScore rt timeStr =
     (if \<not> truthy timeStr then Inr (Fin 0)
      else case js_includes (the timeStr) unit_week of
        Inl e \<Rightarrow> Inl e
      | Inr True \<Rightarrow> parseInt_or rt timeStr (num_add (Fin 0) (Fin 100))
      | Inr False \<Rightarrow>
     (case js_includes (the timeStr) unit_month of
        Inl e \<Rightarrow> Inl e
      | Inr True \<Rightarrow> parseInt_or rt timeStr (num_add (Fin 0) (Fin 50))
      | Inr False \<Rightarrow>
     (case js_includes (the timeStr) unit_year of
        Inl e \<Rightarrow> Inl e
      | Inr True \<Rightarrow> parseInt_or rt timeStr (Fin 0)
      | Inr False \<Rightarrow> Inr (Fin 0))))"

section \<open>The stored documents and the upload tree\<close>

text \<open>
  Each of the two JSON files is missing, holds text that does not parse, or holds
  a document, given as the value \<open>JSON.parse\<close> reads in it. The comments file
  is written only by \<open>initDataFiles\<close> and by the PUT, POST and DELETE handlers,
  each of which writes an array, so its document is a list of values. \<open>disk\<close>
  is the set of the resolved paths of the other files that exist.
\<close>

datatype 'a json_file = Missing | Unparsable | Doc 'a

record server_state =
  restaurant_file :: "json json_file"
  comments_file :: "json list json_file"
  disk :: "jstring set"

fun readJsonFile :: "'a json_file \<Rightarrow> 'a option" where
  "readJsonFile Missing = None"
| "readJsonFile Unparsable = None"
| "readJsonFile (Doc d) = Some d"

record response =
  code :: nat
  msg :: string
  data :: jsval

text \<open>The resolved paths of the two JSON files.\<close>

definition RESTAURANT_FILE :: "runtime \<Rightarrow> jstring" where
  "RESTAURANT_FILE rt = path_resolve rt (ustr ''data/restaurant.json'')"

definition COMMENTS_FILE :: "runtime \<Rightarrow> jstring" where
  "COMMENTS_FILE rt = path_resolve rt (ustr ''data/comments.json'')"

text \<open>
  \<open>fs.existsSync\<close> and \<open>fs.unlinkSync\<close> on a resolved path, which may be the
  path of one of the two JSON files.
\<close>

definition file_exists :: "runtime \<Rightarrow> server_state \<Rightarrow> jstring \<Rightarrow> bool" where
  "file_exists rt st f \<longleftrightarrow>
     f \<in> disk st
     \<or> (f = RESTAURANT_FILE rt \<and> restaurant_file st \<noteq> Missing)
     \<or> (f = COMMENTS_FILE rt \<and> comments_file st \<noteq> Missing)"

definition unlink :: "runtime \<Rightarrow> jstring \<Rightarrow> server_state \<Rightarrow> server_state" where
  "unlink rt f st =
     st\<lparr>restaurant_file := (if f = RESTAURANT_FILE rt then Missing else restaurant_file st),
        comments_file := (if f = COMMENTS_FILE rt then Missing else comments_file st),
        disk := disk st - {f}\<rparr>"

text \<open>
  \<open>deleteFileIfExist\<close>. A path that is no string makes \<open>path.resolve\<close> throw,
  and a failing \<open>unlinkSync\<close> throws too; both are caught and give \<open>false\<close>.
\<close>

definition deleteFileIfExist :: "runtime \<Rightarrow> json \<Rightarrow> server_state \<Rightarrow> bool \<times> server_state" where
  "deleteFileIfExist rt filePath st =
     (case filePath of
        JStr p \<Rightarrow>
          (let fullPath = path_resolve rt p
           in if file_exists rt st fullPath
              then (if unlink_ok rt fullPath
                    then (True, unlink rt fullPath st)
                    else (False, st))
              else (False, st))
      | _ \<Rightarrow> (False, st))"

text \<open>\<open>paths.forEach(p => deleteFileIfExist(p))\<close>.\<close>

definition delete_each :: "runtime \<Rightarrow> json list \<Rightarrow> server_state \<Rightarrow> server_state" where
  "delete_each rt paths st = fold (\<lambda>p s. snd (deleteFileIfExist rt p s)) paths st"

definition delete_prop :: "jstring \<Rightarrow> json \<Rightarrow> json" where
  "delete_prop k v = (case v of JObj kvs \<Rightarrow> JObj (filter (\<lambda>kv. fst kv \<noteq> k) kvs) | _ \<Rightarrow> v)"

section \<open>The seed documents\<close>

text \<open>
  \<open>initDataFiles\<close> writes the default profile and the two default reviews where
  the file is missing; the result of the write is not looked at. The texts
  outside ASCII are given by their code units.
\<close>

definition defaultConfig :: json where
  "defaultConfig = JObj
     [(ustr ''name'', JStr (ustr ''The Wine Shop'')),
      (ustr ''rating'', JNum (round_double (46 / 10))),
      (ustr ''addr'', JStr (ustr ''Bruckenstr. 35, 60364 Frankfurt am Main'')),
      (ustr ''phone'', JStr (ustr ''+089 661 2744'')),
      (ustr ''realUrl'', JStr (ustr ''https://maps.google.com/'')),
      (ustr ''type'', JStr [37202, 34892]),
      (ustr ''status'', JStr [24050, 25171, 28874]),
      (ustr ''intro'', JStr
         [84, 104, 101, 32, 87, 105, 110, 101, 32, 83, 104, 111, 112, 32, 20301, 20110,
         27861, 20848, 20811, 31119, 24066, 20013, 24515, 65292, 20027, 33829, 21508,
         31867, 36827, 21475, 33889, 33796, 37202, 12289, 31934, 37247, 21860, 37202,
         21450, 29305, 33394, 23567, 39135, 65292, 26159, 24403, 22320, 26497, 20855,
         20154, 27668, 30340, 37202, 27700, 20307, 39564, 24215, 12290, 24215, 20869,
         29615, 22659, 33298, 36866, 65292, 24215, 21592, 19987, 19994, 28909, 24773,
         65292, 20026, 39038, 23458, 25552, 20379, 20010, 24615, 21270, 30340, 37202,
         27700, 25512, 33616, 26381, 21153, 12290]),
      (ustr ''icon'', JStr []),
      (ustr ''images'', JArr [])]"

definition defaultComments :: "json list" where
  "defaultComments =
     [JObj
        [(ustr ''name'', JStr (ustr ''Link LL'')),
         (ustr ''userAvatar'', JStr []),
         (ustr ''label'', JStr [26412, 22320, 21521, 23548]),
         (ustr ''reviewCount'', JStr [49, 48, 52, 26465, 35780, 20215]),
         (ustr ''photoCount'', JStr [52, 48, 53, 24352, 29031, 29255]),
         (ustr ''rating'', JNum (Fin 4)),
         (ustr ''time'', JStr [52, 21608, 21069]),
         (ustr ''content'', JStr [39135, 29289, 32, 21860, 37202, 32, 79, 75]),
         (ustr ''reviewImages'', JArr
            [JStr (ustr ''https://via.placeholder.com/200/333333/ffffff?text=Food1''),
             JStr (ustr ''https://via.placeholder.com/200/333333/ffffff?text=Food2''),
             JStr (ustr ''https://via.placeholder.com/200/333333/ffffff?text=Food3''),
             JStr (ustr ''https://via.placeholder.com/200/333333/ffffff?text=Beer'')]),
         (ustr ''isUserAdd'', JBool False),
         (ustr ''likeCount'', JNum (Fin 0)),
         (ustr ''isLiked'', JBool False)],
      JObj
        [(ustr ''name'', JStr (ustr ''Lai Hao Sheng'')),
         (ustr ''userAvatar'', JStr []),
         (ustr ''label'', JStr []),
         (ustr ''reviewCount'', JStr [55, 26465, 35780, 20215]),
         (ustr ''photoCount'', JStr [49, 24352, 29031, 29255]),
         (ustr ''rating'', JNum (Fin 5)),
         (ustr ''time'', JStr [51, 24180, 21069]),
         (ustr ''content'', JStr
            [38750, 24120, 110, 105, 99, 101, 32, 39135, 29289, 37117, 24456, 22909,
            21507, 32, 22320, 26041, 20063, 24456, 19981, 38169]),
         (ustr ''reviewImages'', JArr
            [JStr (ustr ''https://via.placeholder.com/200/333333/ffffff?text=Shop'')]),
         (ustr ''isUserAdd'', JBool False),
         (ustr ''likeCount'', JNum (Fin 0)),
         (ustr ''isLiked'', JBool False)]]"

definition initDataFiles :: "runtime \<Rightarrow> server_state \<Rightarrow> server_state" where
  "initDataFiles rt st =
     (let st1 = (if restaurant_file st = Missing \<and> write_ok rt
                 then st\<lparr>restaurant_file := Doc (serialize defaultConfig)\<rparr> else st)
      in if comments_file st1 = Missing \<and> write_ok rt
         then st1\<lparr>comments_file := Doc (map serialize defaultComments)\<rparr> else st1)"

section \<open>The profile endpoints\<close>

text \<open>GET /api/restaurant.\<close>

definition get_restaurant :: "server_state \<Rightarrow> response" where
  "get_restaurant st =
     \<lparr>code = 200, msg = ''success'',
      data = Some (serialize (js_or (readJsonFile (restaurant_file st)) (JObj [])))\<rparr>"

text \<open>
  The profile that POST /api/restaurant builds. \<open>parseFloat\<close> converts its
  argument to a string first, which throws for some objects.
\<close>

definition finalConfig :: "runtime \<Rightarrow> json \<Rightarrow> error + json" where
  "finalConfig rt newConfig =
     bind_err (toString_val rt (obj_get newConfig (ustr ''rating''))) (\<lambda>rating_text. Inr (JObj
       [(ustr ''name'', js_or (obj_get newConfig (ustr ''name'')) (JStr (ustr ''The Wine Shop''))),
        (ustr ''rating'',
           (if parseFloat rt rating_text = NaN then JNum (round_double (46 / 10))
            else JNum (parseFloat rt rating_text))),
        (ustr ''addr'', js_or (obj_get newConfig (ustr ''addr''))
           (JStr (ustr ''Bruckenstr. 35, 60364 Frankfurt am Main''))),
        (ustr ''phone'', js_or (obj_get newConfig (ustr ''phone'')) (JStr (ustr ''+089 661 2744''))),
        (ustr ''realUrl'', js_or (obj_get newConfig (ustr ''realUrl''))
           (JStr (ustr ''https://maps.google.com/''))),
        (ustr ''type'', js_or (obj_get newConfig (ustr ''type'')) (JStr (ustr ''Wine Shop''))),
        (ustr ''status'', js_or (obj_get newConfig (ustr ''status'')) (JStr (ustr ''Closed''))),
        (ustr ''intro'', js_or (obj_get newConfig (ustr ''intro''))
           (JStr (ustr ''No introduction available''))),
        (ustr ''icon'', js_or (obj_get newConfig (ustr ''icon'')) (JStr [])),
        (ustr ''images'',
           (if isArray (obj_get newConfig (ustr ''images''))
            then the (obj_get newConfig (ustr ''images'')) else JArr []))]))"

text \<open>
  POST /api/restaurant. The files named in \<open>deletedImages\<close> are removed before
  the profile is built; an exception while it is built leaves the handler, which
  has no \<open>try\<close>, and nothing is written.
\<close>

definition post_restaurant ::
  "runtime \<Rightarrow> jsval \<Rightarrow> server_state \<Rightarrow> (error + response) \<times> server_state" where
  "post_restaurant rt body st =
     (if \<not> truthy (map_option express_json body)
      then (Inr \<lparr>code = 400, msg = ''Configuration data cannot be empty'', data = None\<rparr>, st)
      else
        (let newConfig = express_json (the body);
             st1 = (case obj_get newConfig (ustr ''deletedImages'') of
                      Some (JArr imgs) \<Rightarrow> delete_each rt imgs st
                    | _ \<Rightarrow> st);
             newConfig1 = (if isArray (obj_get newConfig (ustr ''deletedImages''))
                           then delete_prop (ustr ''deletedImages'') newConfig else newConfig)
         in case finalConfig rt newConfig1 of
              Inl e \<Rightarrow> (Inl e, st1)
            | Inr fc \<Rightarrow>
                if write_ok rt
                then (Inr \<lparr>code = 200, msg = ''Configuration saved successfully'',
                           data = Some (serialize fc)\<rparr>,
                      st1\<lparr>restaurant_file := Doc (serialize fc)\<rparr>)
                else (Inr \<lparr>code = 500,
                           msg = ''Configuration save failed, please check server permissions'',
                           data = None\<rparr>, st1)))"

section \<open>Sorting the review list\<close>










section \<open>The review endpoints\<close>

text \<open>\<open>readJsonFile(COMMENTS_FILE) || []\<close>.\<close>

definition read_comments :: "server_state \<Rightarrow> json list" where
  "read_comments st = (case readJsonFile (comments_file st) of None \<Rightarrow> [] | Some xs \<Rightarrow> xs)"


text \<open>PUT /api/comments.\<close>

definition put_comments :: "runtime \<Rightarrow> jsval \<Rightarrow> server_state \<Rightarrow> response \<times> server_state" where
  "put_comments rt body st =
     (case map_option express_json body of
        Some (JArr newComments) \<Rightarrow>
          (if write_ok rt
           then (\<lparr>code = 200, msg = ''Comments updated successfully'',
                  data = Some (JArr (map serialize newComments))\<rparr>,
                 st\<lparr>comments_file := Doc (map serialize newComments)\<rparr>)
           else (\<lparr>code = 500, msg = ''Comments update failed'', data = None\<rparr>, st))
      | _ \<Rightarrow> (\<lparr>code = 400, msg = ''Comments data must be an array'', data = None\<rparr>, st))"



text \<open>
  DELETE /api/comments/:index. \<open>comments[index]\<close> is \<open>undefined\<close> when the index
  is NaN, and reading a property of \<open>undefined\<close> or \<open>null\<close> throws; the handler
  has no \<open>try\<close>, so the result is then the error and no envelope.
\<close>

definition element_at :: "json list \<Rightarrow> number \<Rightarrow> jsval" where
  "element_at xs index =
     (case index of
        Fin r \<Rightarrow> (if 0 \<le> r \<and> r < of_nat (length xs) \<and> r = of_int \<lfloor>r\<rfloor>
                  then Some (xs ! nat \<lfloor>r\<rfloor>) else None)
      | _ \<Rightarrow> None)"

definition splice1 :: "json list \<Rightarrow> number \<Rightarrow> json list" where
  "splice1 xs index =
     (case index of
        Fin r \<Rightarrow> take (nat \<lfloor>r\<rfloor>) xs @ drop (Suc (nat \<lfloor>r\<rfloor>)) xs
      | _ \<Rightarrow> drop 1 xs)"

definition delete_comment ::
  "runtime \<Rightarrow> jstring \<Rightarrow> server_state \<Rightarrow> (error + response) \<times> server_state" where
  "delete_comment rt index_param st =
     (let index = parseInt index_param;
          comments = read_comments st
      in if num_lt index (Fin 0) \<or> num_ge index (Fin (of_nat (length comments)))
         then (Inr \<lparr>code = 400, msg = ''Invalid comment index'', data = None\<rparr>, st)
         else
           (case element_at comments index of
              None \<Rightarrow> (Inl TypeError, st)
            | Some JNull \<Rightarrow> (Inl TypeError, st)
            | Some commentToDelete \<Rightarrow>
                (let st1 = (case obj_get commentToDelete (ustr ''reviewImages'') of
                              Some (JArr imgs) \<Rightarrow> delete_each rt imgs st
                            | _ \<Rightarrow> st);
                     st2 = (if truthy (obj_get commentToDelete (ustr ''userAvatar''))
                            then snd (deleteFileIfExist rt
                                   (the (obj_get commentToDelete (ustr ''userAvatar''))) st1)
                            else st1);
                     comments1 = splice1 comments index
                 in if write_ok rt
                    then (Inr \<lparr>code = 200, msg = ''Comment deleted successfully'',
                               data = Some (JArr (map serialize comments1))\<rparr>,
                          st2\<lparr>comments_file := Doc (map serialize comments1)\<rparr>)
                    else (Inr \<lparr>code = 500, msg = ''Comment deletion failed'', data = None\<rparr>,
                          st2))))"

section \<open>The upload handler\<close>

text \<open>
  \<open>toLowerCase\<close> on the ASCII letters. The case mapping of the other letters
  is not modelled; none of them is mapped to a letter of an allowed extension.
\<close>

definition toLowerCase :: "jstring \<Rightarrow> jstring" where
  "toLowerCase s = map (\<lambda>c. if 65 \<le> c \<and> c \<le> 90 then c + 32 else c) s"

text \<open>
  \<open>path.extname\<close> and \<open>path.basename\<close> by the POSIX rules: the last
  component of the path, trailing slashes apart; its extension starts at its last
  dot, and is empty when there is no dot, when the dot is its first unit and when
  the component is \<open>..\<close>.
\<close>

definition last_component :: "jstring \<Rightarrow> jstring" where
  "last_component p = rev (takeWhile (\<lambda>c. c \<noteq> 47) (dropWhile (\<lambda>c. c = 47) (rev p)))"

definition extname :: "jstring \<Rightarrow> jstring" where
  "extname p =
     (let comp = last_component p;
          after = rev (takeWhile (\<lambda>c. c \<noteq> 46) (rev comp));
          stem = take (length comp - length after - 1) comp
      in if 46 \<notin> set comp \<or> stem = [] \<or> comp = [46, 46] then [] else 46 # after)"

definition basename :: "jstring \<Rightarrow> jstring \<Rightarrow> jstring" where
  "basename p suffix =
     (let comp = last_component p
      in if suffix \<noteq> [] \<and> length suffix \<le> length p
         then (if suffix = p then []
               else if length suffix < length comp
                       \<and> drop (length comp - length suffix) comp = suffix
                    then take (length comp - length suffix) comp
                    else comp)
         else comp)"

text \<open>
  One file of a multipart request. \<open>stamp\<close> is the text of the time stamp and
  the random token, joined by a hyphen, that the runtime yields when the file is
  named.
\<close>

record upload_part =
  fieldname :: jstring
  originalname :: jstring
  size_bytes :: nat
  stamp :: jstring

definition allowedExts :: "jstring list" where
  "allowedExts = [ustr ''.jpg'', ustr ''.jpeg'', ustr ''.png'', ustr ''.gif'', ustr ''.webp'']"

text \<open>\<open>fileFilter\<close> answers \<open>cb(null, true)\<close> or \<open>cb(new Error(...), false)\<close>.\<close>

definition fileFilter :: "upload_part \<Rightarrow> error + bool" where
  "fileFilter file =
     (let ext = toLowerCase (extname (originalname file))
      in if ext \<in> set allowedExts then Inr True else Inl FilterError)"

text \<open>The storage directories, relative to the server directory.\<close>

definition destination :: "upload_part \<Rightarrow> error + jstring" where
  "destination file =
     (if fieldname file = ustr ''icon'' then Inr (ustr ''uploads/icons'')
      else if fieldname file = ustr ''images'' then Inr (ustr ''uploads/images'')
      else if fieldname file = ustr ''reviewImages'' then Inr (ustr ''uploads/review-images'')
      else if fieldname file = ustr ''userAvatar'' then Inr (ustr ''uploads/avatars'')
      else Inl DestinationError)"

definition storage_filename :: "upload_part \<Rightarrow> jstring" where
  "storage_filename file =
     (let ext = toLowerCase (extname (originalname file));
          baseName = basename (originalname file) ext
      in baseName @ [45] @ stamp file @ ext)"

text \<open>
  The upload middleware, by the contract of the library. \<open>upload.single(f)\<close>
  admits one file of field \<open>f\<close> and \<open>upload.array(f, n)\<close> admits \<open>n\<close>. The
  files of the request are taken in order: a file beyond the limit of 10 files
  ends the request with an error; a file with no name is skipped; a file of
  another field, or beyond the number the field admits, ends it with an error;
  then \<open>fileFilter\<close> is asked, and its error ends the request; then the storage
  chooses the directory and the name and writes the file, and a file of more than
  5 MB ends the request with an error. The result is the error or the files
  stored, together with every file written so far, each as directory and name.
\<close>

fun multer_run ::
  "jstring \<Rightarrow> nat \<Rightarrow> nat \<Rightarrow> upload_part list \<Rightarrow> (jstring \<times> jstring) list
     \<Rightarrow> (error + (jstring \<times> jstring) list) \<times> (jstring \<times> jstring) list" where
  "multer_run field left seen [] acc = (Inr acc, acc)"
| "multer_run field left seen (p # ps) acc =
     (if 10 \<le> seen then (Inl (MulterError LIMIT_FILE_COUNT), acc)
      else if originalname p = [] then multer_run field left (Suc seen) ps acc
      else if fieldname p \<noteq> field \<or> left = 0
        then (Inl (MulterError LIMIT_UNEXPECTED_FILE), acc)
      else
        (case fileFilter p of
           Inl e \<Rightarrow> (Inl e, acc)
         | Inr False \<Rightarrow> multer_run field (left - 1) (Suc seen) ps acc
         | Inr True \<Rightarrow>
             (case destination p of
                Inl e \<Rightarrow> (Inl e, acc)
              | Inr dir \<Rightarrow>
                  (if 5 * 1024 * 1024 < size_bytes p
                   then (Inl (MulterError LIMIT_FILE_SIZE), acc @ [(dir, storage_filename p)])
                   else multer_run field (left - 1) (Suc seen) ps
                          (acc @ [(dir, storage_filename p)])))))"

definition stored_paths :: "runtime \<Rightarrow> (jstring \<times> jstring) list \<Rightarrow> jstring set" where
  "stored_paths rt written = set (map (\<lambda>(dir, name). path_resolve rt (dir @ [47] @ name)) written)"

text \<open>
  A request through the middleware. On an error the middleware removes the files
  it has written for the request and hands the error to the framework: the route
  handler does not run. The program installs no error handler of its own.
\<close>

definition run_upload ::
  "runtime \<Rightarrow> jstring \<Rightarrow> nat \<Rightarrow> upload_part list \<Rightarrow> server_state
     \<Rightarrow> (error + (jstring \<times> jstring) list) \<times> server_state" where
  "run_upload rt field maxCount parts st =
     (case multer_run field maxCount 0 parts [] of
        (Inl e, written) \<Rightarrow>
          (Inl e, st\<lparr>disk := (disk st \<union> stored_paths rt written)
                              - {p \<in> stored_paths rt written. unlink_ok rt p}\<rparr>)
      | (Inr files, written) \<Rightarrow>
          (Inr files, st\<lparr>disk := disk st \<union> stored_paths rt written\<rparr>))"

text \<open>\<open>path.join('uploads', dir, filename).replace(/\\/g, '/')\<close>.\<close>

definition web_path :: "jstring \<Rightarrow> jstring \<Rightarrow> jstring" where
  "web_path dir name = map (\<lambda>c. if c = 92 then 47 else c) (dir @ [47] @ name)"

fun show_nat :: "nat \<Rightarrow> string" where
  "show_nat n =
     (if n < 10 then [char_of (48 + n)] else show_nat (n div 10) @ [char_of (48 + n mod 10)])"

definition upload_icon ::
  "runtime \<Rightarrow> upload_part list \<Rightarrow> server_state \<Rightarrow> (error + response) \<times> server_state" where
  "upload_icon rt parts st =
     (case run_upload rt (ustr ''icon'') 1 parts st of
        (Inl e, st1) \<Rightarrow> (Inl e, st1)
      | (Inr [], st1) \<Rightarrow>
          (Inr \<lparr>code = 400, msg = ''Please select an icon file to upload'', data = None\<rparr>, st1)
      | (Inr (f # fs), st1) \<Rightarrow>
          (Inr \<lparr>code = 200, msg = ''Icon uploaded successfully'',
                data = Some (JObj [(ustr ''iconPath'',
                         JStr (web_path (ustr ''uploads/icons'') (snd f)))])\<rparr>, st1))"

definition upload_images ::
  "runtime \<Rightarrow> upload_part list \<Rightarrow> server_state \<Rightarrow> (error + response) \<times> server_state" where
  "upload_images rt parts st =
     (case run_upload rt (ustr ''images'') 10 parts st of
        (Inl e, st1) \<Rightarrow> (Inl e, st1)
      | (Inr [], st1) \<Rightarrow>
          (Inr \<lparr>code = 400, msg = ''Please select image files to upload'', data = None\<rparr>, st1)
      | (Inr files, st1) \<Rightarrow>
          (Inr \<lparr>code = 200,
                msg = ''Successfully uploaded '' @ show_nat (length files) @ '' images'',
                data = Some (JObj [(ustr ''imagePaths'',
                         JArr (map (\<lambda>f. JStr (web_path (ustr ''uploads/images'') (snd f)))
                                 files))])\<rparr>, st1))"

definition upload_avatar ::
  "runtime \<Rightarrow> upload_part list \<Rightarrow> server_state \<Rightarrow> (error + response) \<times> server_state" where
  "upload_avatar rt parts st =
     (case run_upload rt (ustr ''userAvatar'') 1 parts st of
        (Inl e, st1) \<Rightarrow> (Inl e, st1)
      | (Inr [], st1) \<Rightarrow>
          (Inr \<lparr>code = 400, msg = ''Please select an avatar file to upload'', data = None\<rparr>, st1)
      | (Inr (f # fs), st1) \<Rightarrow>
          (Inr \<lparr>code = 200, msg = ''Avatar uploaded successfully'',
                data = Some (JObj [(ustr ''avatarPath'',
                         JStr (web_path (ustr ''uploads/avatars'') (snd f)))])\<rparr>, st1))"

definition upload_review_images ::
  "runtime \<Rightarrow> upload_part list \<Rightarrow> server_state \<Rightarrow> (error + response) \<times> server_state" where
  "upload_review_images rt parts st =
     (case run_upload rt (ustr ''reviewImages'') 10 parts st of
        (Inl e, st1) \<Rightarrow> (Inl e, st1)
      | (Inr [], st1) \<Rightarrow>
          (Inr \<lparr>code = 400, msg = ''Please select review images to upload'', data = None\<rparr>, st1)
      | (Inr files, st1) \<Rightarrow>
          (Inr \<lparr>code = 200,
                msg = ''Successfully uploaded '' @ show_nat (length files) @ '' review images'',
                data = Some (JObj [(ustr ''reviewImagePaths'',
                         JArr (map (\<lambda>f. JStr (web_path (ustr ''uploads/review-images'') (snd f)))
                                 files))])\<rparr>, st1))"

section \<open>Notions of the specification\<close>

text \<open>
  The files a review references: the elements of its \<open>reviewImages\<close> array,
  then its \<open>userAvatar\<close> when it has one.
\<close>

definition referenced_files :: "json \<Rightarrow> json list" where
  "referenced_files c =
     (case obj_get c (ustr ''reviewImages'') of Some (JArr imgs) \<Rightarrow> imgs | _ \<Rightarrow> [])
     @ (if truthy (obj_get c (ustr ''userAvatar''))
        then [the (obj_get c (ustr ''userAvatar''))] else [])"

text \<open>The text fields of the profile with the defaults of POST /api/restaurant.\<close>

definition profile_defaults :: "(jstring \<times> json) list" where
  "profile_defaults =
     [(ustr ''name'', JStr (ustr ''The Wine Shop'')),
      (ustr ''addr'', JStr (ustr ''Bruckenstr. 35, 60364 Frankfurt am Main'')),
      (ustr ''phone'', JStr (ustr ''+089 661 2744'')),
      (ustr ''realUrl'', JStr (ustr ''https://maps.google.com/'')),
      (ustr ''type'', JStr (ustr ''Wine Shop'')),
      (ustr ''status'', JStr (ustr ''Closed'')),
      (ustr ''intro'', JStr (ustr ''No introduction available'')),
      (ustr ''icon'', JStr [])]"

definition profile_fields :: "jstring list" where
  "profile_fields =
     [ustr ''name'', ustr ''rating'', ustr ''addr'', ustr ''phone'', ustr ''realUrl'',
      ustr ''type'', ustr ''status'', ustr ''intro'', ustr ''icon'', ustr ''images'']"

definition object_keys :: "json \<Rightarrow> jstring list" where
  "object_keys v = (case v of JObj kvs \<Rightarrow> map fst kvs | _ \<Rightarrow> [])"


text \<open>
  The resolved paths of the files named in a list of values that the file system
  lets be removed.
\<close>

definition removable_paths :: "runtime \<Rightarrow> json list \<Rightarrow> jstring set" where
  "removable_paths rt ps =
     {path_resolve rt q |q. JStr q \<in> set ps \<and> unlink_ok rt (path_resolve rt q)}"

section \<open>A runtime for the examples\<close>

text \<open>
  Decimal text for the Number conversions, an engine that leaves an array it
  cannot sort consistently as it is, the server directory \<open>/srv/app\<close>, and a
  file system that allows every removal and every write.
\<close>

fun frac_digits :: "nat \<Rightarrow> rat \<Rightarrow> jstring" where
  "frac_digits 0 r = []"
| "frac_digits (Suc k) r =
     (if r = 0 then []
      else (48 + nat \<lfloor>r * 10\<rfloor>) # frac_digits k (r * 10 - of_int \<lfloor>r * 10\<rfloor>))"

definition decimal_text :: "rat \<Rightarrow> jstring" where
  "decimal_text r =
     (if r < 0 then [45] else [])
     @ ustr (show_nat (nat \<lfloor>\<bar>r\<bar>\<rfloor>))
     @ (if \<bar>r\<bar> = of_int \<lfloor>\<bar>r\<bar>\<rfloor> then []
        else 46 # frac_digits 20 (\<bar>r\<bar> - of_int \<lfloor>\<bar>r\<bar>\<rfloor>))"

text \<open>
  An unsigned decimal literal at the start of a text, with the text after it:
  digits, a fraction, an exponent. \<open>read_digits\<close> gives the value of the
  digits, their number and the text after them.
\<close>

fun read_digits :: "jstring \<Rightarrow> nat \<Rightarrow> nat \<Rightarrow> nat \<times> nat \<times> jstring" where
  "read_digits [] v n = (v, n, [])"
| "read_digits (c # cs) v n =
     (if 48 \<le> c \<and> c \<le> 57 then read_digits cs (v * 10 + (c - 48)) (Suc n)
      else (v, n, c # cs))"

definition read_exponent :: "jstring \<Rightarrow> (int \<times> jstring) option" where
  "read_exponent s =
     (case s of
        [] \<Rightarrow> None
      | c # t \<Rightarrow>
          if c = 101 \<or> c = 69
          then (case read_digits (case t of d # u \<Rightarrow> if d = 45 \<or> d = 43 then u else t | [] \<Rightarrow> t) 0 0 of
                  (v, n, r) \<Rightarrow>
                    if n = 0 then None
                    else Some (case t of d # u \<Rightarrow> if d = 45 then - int v else int v | [] \<Rightarrow> int v,
                               r))
          else None)"

definition read_mantissa :: "jstring \<Rightarrow> (rat \<times> jstring) option" where
  "read_mantissa s =
     (case read_digits s 0 0 of
        (iv, ni, r1) \<Rightarrow>
          (case r1 of
             [] \<Rightarrow> if ni = 0 then None else Some (of_nat iv, r1)
           | c # t \<Rightarrow>
               if c = 46
               then (case read_digits t 0 0 of
                       (fv, nf, r2) \<Rightarrow>
                         if ni = 0 \<and> nf = 0 then None
                         else Some (of_nat iv + of_nat fv / 10 ^ nf, r2))
               else if ni = 0 then None else Some (of_nat iv, r1)))"

definition read_decimal :: "jstring \<Rightarrow> (rat \<times> jstring) option" where
  "read_decimal s =
     (case read_mantissa s of
        None \<Rightarrow> None
      | Some (m, r2) \<Rightarrow>
          (case read_exponent r2 of
             None \<Rightarrow> Some (m, r2)
           | Some (e, r3) \<Rightarrow> Some (if e < 0 then m / 10 ^ nat (- e) else m * 10 ^ nat e, r3)))"

definition read_unsigned :: "jstring \<Rightarrow> (number \<times> jstring) option" where
  "read_unsigned u =
     (if take 8 u = ustr ''Infinity'' then Some (PosInf, drop 8 u)
      else (case read_decimal u of None \<Rightarrow> None | Some (m, rest) \<Rightarrow> Some (Fin m, rest)))"

definition read_signed :: "jstring \<Rightarrow> (number \<times> jstring) option" where
  "read_signed s =
     (case s of
        [] \<Rightarrow> None
      | c # t \<Rightarrow>
          if c = 45
          then (case read_unsigned t of None \<Rightarrow> None | Some (n, rest) \<Rightarrow> Some (num_neg n, rest))
          else if c = 43 then read_unsigned t
          else read_unsigned s)"

definition example_parseFloat :: "jstring \<Rightarrow> number" where
  "example_parseFloat s =
     (case read_signed (dropWhile is_ws s) of None \<Rightarrow> NaN | Some (n, rest) \<Rightarrow> n)"

definition example_string_to_number :: "jstring \<Rightarrow> number" where
  "example_string_to_number s =
     (let t = dropWhile is_ws (rev (dropWhile is_ws (rev s)))
      in if t = [] then Fin 0
         else (case read_signed t of
                 None \<Rightarrow> NaN
               | Some (n, rest) \<Rightarrow> if rest = [] then n else NaN))"

definition example_runtime :: runtime where
  "example_runtime =
     \<lparr>number_to_string = decimal_text,
      string_to_number = example_string_to_number,
      parseFloat = example_parseFloat,
      engine_sort = (\<lambda>cmp xs. xs),
      path_resolve = (\<lambda>p. ustr ''/srv/app/'' @ p),
      unlink_ok = (\<lambda>p. True),
      write_ok = True\<rparr>"

text \<open>The state after the first start: the seed documents and no uploaded file.\<close>

definition seed_state :: server_state where
  "seed_state = initDataFiles example_runtime
     \<lparr>restaurant_file = Missing, comments_file = Missing, disk = {}\<rparr>"

text \<open>
  A state with a third review, added by a user, whose photo and avatar are
  uploaded files, and with an uploaded icon.
\<close>

definition example_review :: json where
  "example_review = JObj
     [(ustr ''name'', JStr (ustr ''Ann'')),
      (ustr ''userAvatar'', JStr (ustr ''uploads/avatars/ann-17-k3.png'')),
      (ustr ''label'', JStr []),
      (ustr ''reviewCount'', JStr (ustr ''0 reviews'')),
      (ustr ''photoCount'', JStr (ustr ''0 photos'')),
      (ustr ''rating'', JNum (Fin 3)),
      (ustr ''time'', JStr (ustr ''Just now'')),
      (ustr ''content'', JStr (ustr ''Fine'')),
      (ustr ''reviewImages'', JArr [JStr (ustr ''uploads/review-images/p1-17-z9.jpg'')]),
      (ustr ''isUserAdd'', JBool True),
      (ustr ''likeCount'', JNum (Fin 0)),
      (ustr ''isLiked'', JBool False)]"

definition example_state :: server_state where
  "example_state = seed_state
     \<lparr>comments_file := Doc (example_review # defaultComments),
      disk := {ustr ''/srv/app/uploads/avatars/ann-17-k3.png'',
               ustr ''/srv/app/uploads/review-images/p1-17-z9.jpg'',
               ustr ''/srv/app/uploads/icons/logo-16-q1.png''}\<rparr>"

section \<open>Rounding to a double\<close>

lemma bit_length_0 [simp]: "bit_length 0 = 0"
  by (simp add: bit_length.simps)

lemma bit_length_pos: "0 < n \<Longrightarrow> bit_length n = Suc (bit_length (n div 2))"
  by (subst bit_length.simps) simp

lemma bit_length_upper: "n < 2 ^ bit_length n"
proof (induction n rule: bit_length.induct)
  case (1 n)
  show ?case
  proof (cases "n = 0")
    case True
    then show ?thesis by simp
  next
    case False
    with 1 have "n div 2 < 2 ^ bit_length (n div 2)" by simp
    then have "n < 2 * 2 ^ bit_length (n div 2)" by linarith
    with False show ?thesis by (simp add: bit_length_pos)
  qed
qed

lemma bit_length_lower: "0 < n \<Longrightarrow> 2 ^ (bit_length n - 1) \<le> n"
proof (induction n rule: bit_length.induct)
  case (1 n)
  show ?case
  proof (cases "n div 2 = 0")
    case True
    with 1(2) show ?thesis by (simp add: bit_length_pos)
  next
    case False
    with 1 have IH: "2 ^ (bit_length (n div 2) - 1) \<le> n div 2" by simp
    from False have "0 < bit_length (n div 2)" by (simp add: bit_length_pos)
    then have "(2::nat) ^ bit_length (n div 2) = 2 * 2 ^ (bit_length (n div 2) - 1)"
      by (cases "bit_length (n div 2)") simp_all
    with IH have "2 ^ bit_length (n div 2) \<le> n" by linarith
    with 1(2) show ?thesis by (simp add: bit_length_pos)
  qed
qed

lemma bit_length_le: "n < 2 ^ m \<Longrightarrow> bit_length n \<le> m"
proof (cases "n = 0")
  case True
  then show ?thesis by simp
next
  case False
  assume "n < 2 ^ m"
  with bit_length_lower [of n] False have "(2::nat) ^ (bit_length n - 1) < 2 ^ m" by linarith
  then have "bit_length n - 1 < m" by (rule power_less_imp_less_exp [rotated]) simp
  then show ?thesis by simp
qed

lemma pow2_pos [simp]: "0 < pow2 k"
  by (simp add: pow2_def)

lemma pow2_add: "pow2 (j + k) = pow2 j * pow2 k"
  by (simp add: pow2_def power_int_add)

lemma pow2_nat: "pow2 (int n) = 2 ^ n"
  by (simp add: pow2_def)

lemma pow2_mono: "j \<le> k \<Longrightarrow> pow2 j \<le> pow2 k"
  by (simp add: pow2_def power_int_increasing)

lemma binary_exponent_lower:
  assumes "0 < a"
  shows "pow2 (binary_exponent a) \<le> a"
proof (cases "1 \<le> a")
  case True
  then have n: "0 < nat \<lfloor>a\<rfloor>" by simp
  have "pow2 (binary_exponent a) = 2 ^ (bit_length (nat \<lfloor>a\<rfloor>) - 1)"
    using True n by (simp add: binary_exponent_def bit_length_pos flip: pow2_nat)
  also have "\<dots> \<le> of_nat (nat \<lfloor>a\<rfloor>)"
    using bit_length_lower [OF n] by (metis of_nat_le_iff of_nat_numeral of_nat_power)
  also have "\<dots> \<le> a"
    using True by simp
  finally show ?thesis .
next
  case False
  define m where "m = nat (\<lceil>1 / a\<rceil> - 1)"
  from False assms have "1 < 1 / a" by simp
  then have c: "2 \<le> \<lceil>1 / a\<rceil>" by linarith
  have "int m < 2 ^ bit_length m"
    using bit_length_upper [of m] by (metis of_nat_less_iff of_nat_numeral of_nat_power)
  moreover from c have "0 \<le> \<lceil>1 / a\<rceil> - 1" by linarith
  then have "int m = \<lceil>1 / a\<rceil> - 1" unfolding m_def by (rule nat_0_le)
  ultimately have "\<lceil>1 / a\<rceil> \<le> 2 ^ bit_length m" by linarith
  then have "1 / a \<le> 2 ^ bit_length m"
    by (metis ceiling_le_iff of_int_numeral of_int_power)
  with assms have "1 \<le> a * 2 ^ bit_length m"
    by (simp add: field_simps)
  then have "1 / 2 ^ bit_length m \<le> a"
    by (simp add: field_simps)
  moreover have "pow2 (binary_exponent a) = 1 / 2 ^ bit_length m"
    using False by (simp add: binary_exponent_def m_def pow2_def power_int_minus field_simps)
  ultimately show ?thesis by simp
qed

lemma round_half_even_ge_1: "1 \<le> x \<Longrightarrow> 1 \<le> round_half_even x"
proof -
  assume "1 \<le> x"
  then have "1 \<le> \<lfloor>x\<rfloor>" by simp
  then show ?thesis by (simp add: round_half_even_def)
qed

lemma round_half_even_int [simp]: "round_half_even (of_int z) = z"
  by (simp add: round_half_even_def)

lemma quantum_ge: "- 1074 \<le> max e (- 1022) - 52" for e :: int
  by simp

lemma round_magnitude_pos:
  assumes "pow2 (- 1074) \<le> a"
  shows "round_magnitude a = None \<or> (\<exists>v. round_magnitude a = Some v \<and> 0 < v)"
proof -
  have a: "0 < a" using assms pow2_pos [of "- 1074"] by linarith
  define k where "k = max (binary_exponent a) (- 1022) - 52"
  have "pow2 k \<le> a"
  proof (cases "- 1022 \<le> binary_exponent a")
    case True
    then have "k \<le> binary_exponent a" by (simp add: k_def)
    then have "pow2 k \<le> pow2 (binary_exponent a)" by (rule pow2_mono)
    with binary_exponent_lower [OF a] show ?thesis by simp
  next
    case False
    then have "k = - 1074" by (simp add: k_def)
    with assms show ?thesis by simp
  qed
  then have "1 \<le> a / pow2 k" by (simp add: field_simps)
  then have "1 \<le> round_half_even (a / pow2 k)" by (rule round_half_even_ge_1)
  then have "0 < round_to_quantum a k"
    by (simp add: round_to_quantum_def)
  then show ?thesis
    by (simp add: round_magnitude_def k_def)
qed

lemma round_double_uminus: "round_double (- r) = num_neg (round_double r)"
  by (cases "round_magnitude \<bar>r\<bar>") (auto simp: round_double_def)

lemma round_double_sign_pos:
  assumes "pow2 (- 1074) \<le> x"
  shows "num_lt (Fin 0) (round_double x) \<and> \<not> num_lt (round_double x) (Fin 0)"
proof -
  have x: "0 < x" using assms pow2_pos [of "- 1074"] by linarith
  then have ax: "\<bar>x\<bar> = x" by simp
  from round_magnitude_pos [OF assms] x show ?thesis
    by (auto simp: round_double_def ax)
qed

text \<open>A double is a value that rounding leaves as it is; it is a multiple of the least quantum.\<close>

lemma double_grid:
  assumes "round_double r = Fin r"
  shows "\<exists>z. r = of_int z * pow2 (- 1074)"
proof (cases "r = 0")
  case True
  then show ?thesis by (intro exI [of _ 0]) simp
next
  case False
  define k where "k = max (binary_exponent \<bar>r\<bar>) (- 1022) - 52"
  from assms False obtain v where v: "round_magnitude \<bar>r\<bar> = Some v"
    and rv: "r = (if r < 0 then - v else v)"
    by (auto simp: round_double_def split: option.splits if_splits)
  from v have "v = round_to_quantum \<bar>r\<bar> k"
    by (auto simp: round_magnitude_def k_def split: if_splits)
  then obtain m where m: "v = of_int m * pow2 k"
    by (auto simp: round_to_quantum_def)
  have "0 \<le> k + 1074" by (simp add: k_def)
  then obtain n where n: "k + 1074 = int n" by (metis nonneg_int_cases)
  have "pow2 k = pow2 (int n) * pow2 (- 1074)"
    by (simp flip: pow2_add n)
  then have "v = of_int (m * 2 ^ n) * pow2 (- 1074)"
    by (simp add: m pow2_nat)
  with rv show ?thesis
    by (cases "r < 0") (auto intro: exI [of _ "- (m * 2 ^ n)"] exI [of _ "m * 2 ^ n"])
qed

lemma double_difference_sign:
  assumes "round_double a = Fin a" and "round_double b = Fin b"
  shows "num_lt (Fin 0) (num_sub (Fin a) (Fin b)) \<longleftrightarrow> b < a"
    and "num_lt (num_sub (Fin a) (Fin b)) (Fin 0) \<longleftrightarrow> a < b"
proof -
  obtain y z where a: "a = of_int y * pow2 (- 1074)" and b: "b = of_int z * pow2 (- 1074)"
    using double_grid [OF assms(1)] double_grid [OF assms(2)] by blast
  have d: "a - b = of_int (y - z) * pow2 (- 1074)"
    by (simp add: a b algebra_simps)
  have s: "num_sub (Fin a) (Fin b) = round_double (a - b)"
    by (simp add: num_sub_def)
  consider "b < a" | "a = b" | "a < b" by linarith
  then have "(num_lt (Fin 0) (num_sub (Fin a) (Fin b)) \<longleftrightarrow> b < a)
      \<and> (num_lt (num_sub (Fin a) (Fin b)) (Fin 0) \<longleftrightarrow> a < b)"
  proof cases
    case 1
    then have "0 < of_int (y - z) * pow2 (- 1074)" using d by simp
    then have "0 < y - z" using pow2_pos [of "- 1074"] by (simp add: zero_less_mult_iff)
    then have "(1::rat) \<le> of_int (y - z)" by linarith
    then have "1 * pow2 (- 1074) \<le> of_int (y - z) * pow2 (- 1074)"
      by (intro mult_right_mono) (simp_all add: less_imp_le)
    then have "pow2 (- 1074) \<le> a - b"
      by (simp only: d mult_1)
    from round_double_sign_pos [OF this] 1 show ?thesis by (simp add: s)
  next
    case 2
    then have "num_sub (Fin a) (Fin b) = Fin 0" by (simp add: num_sub_def round_double_def)
    with 2 show ?thesis by simp
  next
    case 3
    have d': "b - a = of_int (z - y) * pow2 (- 1074)"
      by (simp add: a b algebra_simps)
    from 3 have "0 < b - a" by simp
    then have "0 < of_int (z - y) * pow2 (- 1074)" by (simp only: d')
    then have "0 < z - y" using pow2_pos [of "- 1074"] by (simp add: zero_less_mult_iff)
    then have "(1::rat) \<le> of_int (z - y)" by linarith
    then have "1 * pow2 (- 1074) \<le> of_int (z - y) * pow2 (- 1074)"
      by (intro mult_right_mono) (simp_all add: less_imp_le)
    then have "pow2 (- 1074) \<le> b - a"
      by (simp only: d' mult_1)
    from round_double_sign_pos [OF this] have "num_lt (Fin 0) (round_double (b - a))"
      and "\<not> num_lt (round_double (b - a)) (Fin 0)" by simp_all
    moreover have "round_double (a - b) = num_neg (round_double (b - a))"
      using round_double_uminus [of "b - a"] by simp
    ultimately show ?thesis using 3
      by (cases "round_double (b - a)") (simp_all add: s)
  qed
  then show "num_lt (Fin 0) (num_sub (Fin a) (Fin b)) \<longleftrightarrow> b < a"
    and "num_lt (num_sub (Fin a) (Fin b)) (Fin 0) \<longleftrightarrow> a < b" by simp_all
qed


lemma round_double_nat:
  assumes "n < 2 ^ 53"
  shows "round_double (of_nat n) = Fin (of_nat n)"
proof (cases "n = 0")
  case True
  then show ?thesis by (simp add: round_double_def)
next
  case False
  define a :: rat where "a = of_nat n"
  have a1: "1 \<le> a" using False by (simp add: a_def)
  have fl: "nat \<lfloor>a\<rfloor> = n" by (simp add: a_def)
  have e: "binary_exponent a = int (bit_length n) - 1"
    using a1 by (simp add: binary_exponent_def fl)
  have "bit_length n \<le> 53" using assms by (rule bit_length_le)
  moreover have "0 < bit_length n" using False by (simp add: bit_length_pos)
  ultimately have "max (binary_exponent a) (- 1022) - 52 = - int (53 - bit_length n)"
    by (simp add: e)
  then obtain j where j: "max (binary_exponent a) (- 1022) - 52 = - int j" ..
  have q: "a / pow2 (- int j) = of_int (int n * 2 ^ j)"
    by (simp add: pow2_def power_int_minus a_def field_simps)
  have r: "round_to_quantum a (- int j) = a"
    unfolding round_to_quantum_def q round_half_even_int
    by (simp add: pow2_def power_int_minus a_def field_simps)
  have "a < pow2 1024"
  proof -
    have "a < 2 ^ 53" using assms unfolding a_def
      by (metis of_nat_less_iff of_nat_numeral of_nat_power)
    also have "\<dots> = pow2 53" by (simp add: pow2_def)
    also have "\<dots> \<le> pow2 1024" by (rule pow2_mono) simp
    finally show ?thesis .
  qed
  then have "round_magnitude a = Some a"
    by (simp add: round_magnitude_def j r)
  then show ?thesis
    using a1 by (simp add: round_double_def flip: a_def)
qed


lemma round_double_100: "round_double 100 = Fin 100"
  using round_double_nat [of 100] by simp

lemma round_double_50: "round_double 50 = Fin 50"
  using round_double_nat [of 50] by simp

lemma round_double_5: "round_double 5 = Fin 5"
  using round_double_nat [of 5] by simp


lemma round_double_0 [simp]: "round_double 0 = Fin 0"
  by (simp add: round_double_def)

lemma round_double_1 [simp]: "round_double 1 = Fin 1"
  using round_double_nat [of 1] by simp

lemma round_double_numeral [simp]:
  "numeral k < (2::nat) ^ 53 \<Longrightarrow> round_double (numeral k) = Fin (numeral k)"
  using round_double_nat [of "numeral k"] by simp

lemma round_double_neg_numeral [simp]:
  "numeral k < (2::nat) ^ 53 \<Longrightarrow> round_double (- numeral k) = Fin (- numeral k)"
  by (simp add: round_double_uminus)

lemma round_double_neg_1 [simp]: "round_double (- 1) = Fin (- 1)"
  by (simp add: round_double_uminus)

section \<open>Auxiliary facts\<close>

lemmas parseInt_eval = parseInt_def Let_def is_ws_def is_digit_def digit_val_def digits_value_def

lemma bind_err_Inr [simp]: "bind_err (Inr x) f = f x"
  by (simp add: bind_err_def)

lemma bind_err_Inl [simp]: "bind_err (Inl e) f = Inl e"
  by (simp add: bind_err_def)

lemma map_of_map_snd:
  "map_of (map (\<lambda>kv. (fst kv, f (snd kv))) kvs) k = map_option f (map_of kvs k)"
  by (induction kvs) auto

lemma obj_get_serialize: "obj_get (serialize c) k = map_option serialize (obj_get c k)"
  by (cases c) (simp_all add: map_of_map_snd split: number.splits)


lemma serialize_Fin [simp]: "serialize (JNum (Fin r)) = JNum (Fin r)"
  by simp

lemma serialize_idem [simp]: "serialize (serialize x) = serialize x"
  by (induction x) (auto split: number.splits)

lemma read_comments_Doc [simp]: "read_comments (st\<lparr>comments_file := Doc xs\<rparr>) = xs"
  by (simp add: read_comments_def)



lemma read_comments_seed: "read_comments seed_state = defaultComments"
  by (simp add: seed_state_def initDataFiles_def example_runtime_def read_comments_def Let_def
      defaultComments_def)

lemma write_ok_example: "write_ok example_runtime"
  by (simp add: example_runtime_def)


lemma read_comments_example: "read_comments example_state = example_review # defaultComments"
  by (simp add: example_state_def read_comments_def)

lemma parseInt_0: "parseInt (ustr ''0'') = Fin (of_nat 0)"
  by (simp add: ustr_def parseInt_eval)


section \<open>The recency score\<close>

lemma getTimeScore_str:
  "getTimeScore rt (Some (JStr s)) = Inr
     (if s = [] then Fin 0
      else if unit_week \<in> set s then num_or (parseInt s) (Fin 100)
      else if unit_month \<in> set s then num_or (parseInt s) (Fin 50)
      else if unit_year \<in> set s then num_or (parseInt s) (Fin 0)
      else Fin 0)"
  by (simp add: getTimeScore_def toString_val_def parseInt_or_def)

text \<open>
  C1. The recency score of a time string. The units are tested in the order
  weeks, months, years, and the first one the string contains decides. With the
  weeks unit the score is the number \<open>parseInt\<close> reads when that is a number
  other than zero, without the offset 100, and it is 100 when \<open>parseInt\<close> fails
  or reads 0; with the months unit and no weeks unit the same holds with 50;
  with the years unit and neither of the others the same holds with 0; a string
  with none of the units scores 0.
\<close>

theorem getTimeScore_units:
  "(unit_week \<in> set s \<and> parseInt s = n \<and> n \<noteq> NaN \<and> n \<noteq> Fin 0
      \<longrightarrow> getTimeScore rt (Some (JStr s)) = Inr n)
   \<and> (unit_week \<in> set s \<and> (parseInt s = NaN \<or> parseInt s = Fin 0)
      \<longrightarrow> getTimeScore rt (Some (JStr s)) = Inr (Fin 100))
   \<and> (unit_week \<notin> set s \<and> unit_month \<in> set s \<and> parseInt s = n \<and> n \<noteq> NaN \<and> n \<noteq> Fin 0
      \<longrightarrow> getTimeScore rt (Some (JStr s)) = Inr n)
   \<and> (unit_week \<notin> set s \<and> unit_month \<in> set s \<and> (parseInt s = NaN \<or> parseInt s = Fin 0)
      \<longrightarrow> getTimeScore rt (Some (JStr s)) = Inr (Fin 50))
   \<and> (unit_week \<notin> set s \<and> unit_month \<notin> set s \<and> unit_year \<in> set s
        \<and> parseInt s = n \<and> n \<noteq> NaN \<and> n \<noteq> Fin 0
      \<longrightarrow> getTimeScore rt (Some (JStr s)) = Inr n)
   \<and> (unit_week \<notin> set s \<and> unit_month \<notin> set s \<and> unit_year \<in> set s
        \<and> (parseInt s = NaN \<or> parseInt s = Fin 0)
      \<longrightarrow> getTimeScore rt (Some (JStr s)) = Inr (Fin 0))
   \<and> (unit_week \<notin> set s \<and> unit_month \<notin> set s \<and> unit_year \<notin> set s
      \<longrightarrow> getTimeScore rt (Some (JStr s)) = Inr (Fin 0))"
  by (cases n) (auto simp: getTimeScore_str num_or_def)

text \<open>The seven cases at time strings such as \<open>4\<close> weeks ago and \<open>Just now\<close>.\<close>

theorem getTimeScore_units_witness:
  "(unit_week \<in> set [52, 21608, 21069] \<and> parseInt [52, 21608, 21069] = Fin 4
      \<and> Fin 4 \<noteq> NaN \<and> Fin 4 \<noteq> Fin 0
      \<and> getTimeScore example_runtime (Some (JStr [52, 21608, 21069])) = Inr (Fin 4))
   \<and> (unit_week \<in> set [19978, 21608] \<and> parseInt [19978, 21608] = NaN
      \<and> getTimeScore example_runtime (Some (JStr [19978, 21608])) = Inr (Fin 100))
   \<and> (unit_week \<notin> set [50, 20010, 26376, 21069] \<and> unit_month \<in> set [50, 20010, 26376, 21069]
      \<and> parseInt [50, 20010, 26376, 21069] = Fin 2 \<and> Fin 2 \<noteq> NaN \<and> Fin 2 \<noteq> Fin 0
      \<and> getTimeScore example_runtime (Some (JStr [50, 20010, 26376, 21069])) = Inr (Fin 2))
   \<and> (unit_week \<notin> set [48, 26376] \<and> unit_month \<in> set [48, 26376] \<and> parseInt [48, 26376] = Fin 0
      \<and> getTimeScore example_runtime (Some (JStr [48, 26376])) = Inr (Fin 50))
   \<and> (unit_week \<notin> set [51, 24180, 21069] \<and> unit_month \<notin> set [51, 24180, 21069]
      \<and> unit_year \<in> set [51, 24180, 21069] \<and> parseInt [51, 24180, 21069] = Fin 3
      \<and> Fin 3 \<noteq> NaN \<and> Fin 3 \<noteq> Fin 0
      \<and> getTimeScore example_runtime (Some (JStr [51, 24180, 21069])) = Inr (Fin 3))
   \<and> (unit_week \<notin> set [21435, 24180] \<and> unit_month \<notin> set [21435, 24180]
      \<and> unit_year \<in> set [21435, 24180] \<and> parseInt [21435, 24180] = NaN
      \<and> getTimeScore example_runtime (Some (JStr [21435, 24180])) = Inr (Fin 0))
   \<and> (unit_week \<notin> set (ustr ''Just now'') \<and> unit_month \<notin> set (ustr ''Just now'')
      \<and> unit_year \<notin> set (ustr ''Just now'')
      \<and> getTimeScore example_runtime (Some (JStr (ustr ''Just now''))) = Inr (Fin 0))"
proof -
  have a: "unit_week \<in> set [52, 21608, 21069] \<and> parseInt [52, 21608, 21069] = Fin 4
      \<and> Fin 4 \<noteq> NaN \<and> Fin 4 \<noteq> Fin 0"
    by (simp add: unit_week_def parseInt_eval)
  have bn: "parseInt [19978, 21608] = NaN"
    by (simp add: parseInt_eval)
  have b: "unit_week \<in> set [19978, 21608]
      \<and> (parseInt [19978, 21608] = NaN \<or> parseInt [19978, 21608] = Fin 0)"
    by (simp add: unit_week_def bn)
  have c: "unit_week \<notin> set [50, 20010, 26376, 21069] \<and> unit_month \<in> set [50, 20010, 26376, 21069]
      \<and> parseInt [50, 20010, 26376, 21069] = Fin 2 \<and> Fin 2 \<noteq> NaN \<and> Fin 2 \<noteq> Fin 0"
    by (simp add: unit_week_def unit_month_def parseInt_eval)
  have dz: "parseInt [48, 26376] = Fin 0"
    by (simp add: parseInt_eval)
  have d: "unit_week \<notin> set [48, 26376] \<and> unit_month \<in> set [48, 26376]
      \<and> (parseInt [48, 26376] = NaN \<or> parseInt [48, 26376] = Fin 0)"
    by (simp add: unit_week_def unit_month_def dz)
  have e: "unit_week \<notin> set [51, 24180, 21069] \<and> unit_month \<notin> set [51, 24180, 21069]
      \<and> unit_year \<in> set [51, 24180, 21069] \<and> parseInt [51, 24180, 21069] = Fin 3
      \<and> Fin 3 \<noteq> NaN \<and> Fin 3 \<noteq> Fin 0"
    by (simp add: unit_week_def unit_month_def unit_year_def parseInt_eval)
  have fn: "parseInt [21435, 24180] = NaN"
    by (simp add: parseInt_eval)
  have f: "unit_week \<notin> set [21435, 24180] \<and> unit_month \<notin> set [21435, 24180]
      \<and> unit_year \<in> set [21435, 24180]
      \<and> (parseInt [21435, 24180] = NaN \<or> parseInt [21435, 24180] = Fin 0)"
    by (simp add: unit_week_def unit_month_def unit_year_def fn)
  have g: "unit_week \<notin> set (ustr ''Just now'') \<and> unit_month \<notin> set (ustr ''Just now'')
      \<and> unit_year \<notin> set (ustr ''Just now'')"
    by (simp add: unit_week_def unit_month_def unit_year_def ustr_def)
  note A = getTimeScore_units [where s = "[52, 21608, 21069]" and n = "Fin 4"
      and rt = example_runtime, THEN conjunct1, THEN mp, OF a]
  note B = getTimeScore_units [where s = "[19978, 21608]" and rt = example_runtime,
      THEN conjunct2, THEN conjunct1, THEN mp, OF b]
  note C = getTimeScore_units [where s = "[50, 20010, 26376, 21069]" and n = "Fin 2"
      and rt = example_runtime, THEN conjunct2, THEN conjunct2, THEN conjunct1, THEN mp, OF c]
  note D = getTimeScore_units [where s = "[48, 26376]" and rt = example_runtime,
      THEN conjunct2, THEN conjunct2, THEN conjunct2, THEN conjunct1, THEN mp, OF d]
  note E = getTimeScore_units [where s = "[51, 24180, 21069]" and n = "Fin 3"
      and rt = example_runtime,
      THEN conjunct2, THEN conjunct2, THEN conjunct2, THEN conjunct2, THEN conjunct1, THEN mp,
      OF e]
  note F = getTimeScore_units [where s = "[21435, 24180]" and rt = example_runtime,
      THEN conjunct2, THEN conjunct2, THEN conjunct2, THEN conjunct2, THEN conjunct2,
      THEN conjunct1, THEN mp, OF f]
  note G = getTimeScore_units [where s = "ustr ''Just now''" and rt = example_runtime,
      THEN conjunct2, THEN conjunct2, THEN conjunct2, THEN conjunct2, THEN conjunct2,
      THEN conjunct2, THEN mp, OF g]
  show ?thesis
    by (intro conjI a [THEN conjunct1] a [THEN conjunct2, THEN conjunct1]
        a [THEN conjunct2, THEN conjunct2, THEN conjunct1]
        a [THEN conjunct2, THEN conjunct2, THEN conjunct2] A b [THEN conjunct1] bn B
        c [THEN conjunct1] c [THEN conjunct2, THEN conjunct1]
        c [THEN conjunct2, THEN conjunct2, THEN conjunct1]
        c [THEN conjunct2, THEN conjunct2, THEN conjunct2, THEN conjunct1]
        c [THEN conjunct2, THEN conjunct2, THEN conjunct2, THEN conjunct2] C
        d [THEN conjunct1] d [THEN conjunct2, THEN conjunct1] dz D
        e [THEN conjunct1] e [THEN conjunct2, THEN conjunct1]
        e [THEN conjunct2, THEN conjunct2, THEN conjunct1]
        e [THEN conjunct2, THEN conjunct2, THEN conjunct2, THEN conjunct1]
        e [THEN conjunct2, THEN conjunct2, THEN conjunct2, THEN conjunct2, THEN conjunct1]
        e [THEN conjunct2, THEN conjunct2, THEN conjunct2, THEN conjunct2, THEN conjunct2] E
        f [THEN conjunct1] f [THEN conjunct2, THEN conjunct1]
        f [THEN conjunct2, THEN conjunct2, THEN conjunct1] fn F
        g [THEN conjunct1] g [THEN conjunct2, THEN conjunct1] g [THEN conjunct2, THEN conjunct2] G)
qed

section \<open>Adding a review and replacing the list\<close>

















section \<open>Deleting a review\<close>

lemma deleteFileIfExist_disk:
  "disk (snd (deleteFileIfExist rt p st)) = disk st - removable_paths rt [p]"
  by (auto simp: deleteFileIfExist_def Let_def file_exists_def unlink_def removable_paths_def
      split: json.splits)

lemma deleteFileIfExist_restaurant_file:
  "restaurant_file (snd (deleteFileIfExist rt p st))
     = (if RESTAURANT_FILE rt \<in> removable_paths rt [p] then Missing else restaurant_file st)"
  by (auto simp: deleteFileIfExist_def Let_def file_exists_def unlink_def removable_paths_def
      split: json.splits)

lemma removable_paths_Cons:
  "removable_paths rt (p # ps) = removable_paths rt [p] \<union> removable_paths rt ps"
  by (auto simp: removable_paths_def)

lemma removable_paths_Nil [simp]: "removable_paths rt [] = {}"
  by (simp add: removable_paths_def)

lemma delete_each_Nil [simp]: "delete_each rt [] st = st"
  by (simp add: delete_each_def)

lemma delete_each_Cons [simp]:
  "delete_each rt (p # ps) st = delete_each rt ps (snd (deleteFileIfExist rt p st))"
  by (simp add: delete_each_def)

lemma delete_each_append:
  "delete_each rt (ps @ qs) st = delete_each rt qs (delete_each rt ps st)"
  by (simp add: delete_each_def)

lemma delete_each_disk:
  "disk (delete_each rt ps st) = disk st - removable_paths rt ps"
proof (induction ps arbitrary: st)
  case Nil
  then show ?case by simp
next
  case (Cons p ps)
  show ?case
    by (simp add: Cons.IH deleteFileIfExist_disk removable_paths_Cons [of rt p ps]) blast
qed

lemma delete_each_restaurant_file:
  "restaurant_file (delete_each rt ps st)
     = (if RESTAURANT_FILE rt \<in> removable_paths rt ps then Missing else restaurant_file st)"
proof (induction ps arbitrary: st)
  case Nil
  then show ?case by simp
next
  case (Cons p ps)
  show ?case
    by (simp add: Cons.IH deleteFileIfExist_restaurant_file removable_paths_Cons [of rt p ps])
qed

lemma delete_comment_referenced:
  "(if truthy (obj_get c (ustr ''userAvatar''))
    then snd (deleteFileIfExist rt (the (obj_get c (ustr ''userAvatar'')))
           (case obj_get c (ustr ''reviewImages'') of
              Some (JArr imgs) \<Rightarrow> delete_each rt imgs st | _ \<Rightarrow> st))
    else (case obj_get c (ustr ''reviewImages'') of
              Some (JArr imgs) \<Rightarrow> delete_each rt imgs st | _ \<Rightarrow> st))
   = delete_each rt (referenced_files c) st"
  by (simp add: referenced_files_def delete_each_append split: option.splits json.splits)

lemma element_at_nat:
  "i < length xs \<Longrightarrow> element_at xs (Fin (of_nat i)) = Some (xs ! i)"
  by (simp add: element_at_def)

lemma splice1_nat: "splice1 xs (Fin (of_nat i)) = take i xs @ drop (Suc i) xs"
  by (simp add: splice1_def)

lemma delete_comment_in_range:
  assumes "parseInt idx = Fin (of_nat i)" and "i < length (read_comments st)"
    and "read_comments st ! i \<noteq> JNull" and "write_ok rt"
  shows "delete_comment rt idx st =
     (Inr \<lparr>code = 200, msg = ''Comment deleted successfully'',
           data = Some (JArr (map serialize
                    (take i (read_comments st) @ drop (Suc i) (read_comments st))))\<rparr>,
      (delete_each rt (referenced_files (read_comments st ! i)) st)
        \<lparr>comments_file := Doc (map serialize
            (take i (read_comments st) @ drop (Suc i) (read_comments st)))\<rparr>)"
proof -
  have "delete_comment rt idx st =
     (Inr \<lparr>code = 200, msg = ''Comment deleted successfully'',
           data = Some (JArr (map serialize (splice1 (read_comments st) (Fin (of_nat i)))))\<rparr>,
      (if truthy (obj_get (read_comments st ! i) (ustr ''userAvatar''))
       then snd (deleteFileIfExist rt (the (obj_get (read_comments st ! i) (ustr ''userAvatar'')))
           (case obj_get (read_comments st ! i) (ustr ''reviewImages'') of
              Some (JArr imgs) \<Rightarrow> delete_each rt imgs st | _ \<Rightarrow> st))
       else (case obj_get (read_comments st ! i) (ustr ''reviewImages'') of
              Some (JArr imgs) \<Rightarrow> delete_each rt imgs st | _ \<Rightarrow> st))
        \<lparr>comments_file := Doc (map serialize (splice1 (read_comments st) (Fin (of_nat i))))\<rparr>)"
    using assms
    by (cases "read_comments st ! i")
       (simp_all add: delete_comment_def Let_def element_at_nat)
  then show ?thesis
    by (simp only: delete_comment_referenced splice1_nat)
qed

text \<open>
  C3 (as amended). DELETE /api/comments/:index with a valid index \<open>i\<close>, on a
  record that is not \<open>null\<close> and with a comments file that can be written: the
  stored list loses the record at \<open>i\<close> and no other, the records before \<open>i\<close>
  keep their position and the records after it move down by one (after a
  deletion at 0 the record that was at 1 is at 0), each record as it is written
  to the file. The deletion of each file the record references in
  \<open>reviewImages\<close> and \<open>userAvatar\<close> is attempted, in this order, before the
  list is written: the files that exist afterwards are those that existed before
  except the referenced ones that could be removed, and the profile is lost when
  the record references its file and the file can be removed.
\<close>

theorem delete_comment_removes_record:
  assumes "parseInt idx = Fin (of_nat i)" and "i < length (read_comments st)"
    and "read_comments st ! i \<noteq> JNull" and "write_ok rt"
  shows "fst (delete_comment rt idx st)
       = Inr \<lparr>code = 200, msg = ''Comment deleted successfully'',
              data = Some (JArr (map serialize
                       (take i (read_comments st) @ drop (Suc i) (read_comments st))))\<rparr>
     \<and> snd (delete_comment rt idx st)
       = (delete_each rt (referenced_files (read_comments st ! i)) st)
           \<lparr>comments_file := Doc (map serialize
               (take i (read_comments st) @ drop (Suc i) (read_comments st)))\<rparr>
     \<and> disk (snd (delete_comment rt idx st))
       = disk st - removable_paths rt (referenced_files (read_comments st ! i))
     \<and> restaurant_file (snd (delete_comment rt idx st))
       = (if RESTAURANT_FILE rt \<in> removable_paths rt (referenced_files (read_comments st ! i))
          then Missing else restaurant_file st)
     \<and> length (read_comments (snd (delete_comment rt idx st))) = length (read_comments st) - 1
     \<and> (\<forall>j<i. read_comments (snd (delete_comment rt idx st)) ! j
                 = serialize (read_comments st ! j))
     \<and> (\<forall>j. i \<le> j \<and> Suc j < length (read_comments st)
          \<longrightarrow> read_comments (snd (delete_comment rt idx st)) ! j
              = serialize (read_comments st ! Suc j))
     \<and> (i = 0 \<and> 1 < length (read_comments st)
          \<longrightarrow> read_comments (snd (delete_comment rt idx st)) ! 0
              = serialize (read_comments st ! 1))"
proof -
  define xs where "xs = read_comments st"
  define ys where "ys = map serialize (take i xs @ drop (Suc i) xs)"
  note d = delete_comment_in_range [OF assms, folded xs_def, folded ys_def]
  have i: "i < length xs" using assms(2) by (simp add: xs_def)
  have len: "length ys = length xs - 1"
    using i by (simp add: ys_def)
  have before: "\<forall>j<i. ys ! j = serialize (xs ! j)"
    using i by (simp add: ys_def nth_append)
  have after: "\<forall>j. i \<le> j \<and> Suc j < length xs \<longrightarrow> ys ! j = serialize (xs ! Suc j)"
    using i by (auto simp: ys_def nth_append min_def)
  from after have first: "i = 0 \<and> 1 < length xs \<longrightarrow> ys ! 0 = serialize (xs ! 1)"
    by simp
  have "fst (delete_comment rt idx st)
       = Inr \<lparr>code = 200, msg = ''Comment deleted successfully'', data = Some (JArr ys)\<rparr>
     \<and> snd (delete_comment rt idx st)
       = (delete_each rt (referenced_files (xs ! i)) st)\<lparr>comments_file := Doc ys\<rparr>
     \<and> disk (snd (delete_comment rt idx st))
       = disk st - removable_paths rt (referenced_files (xs ! i))
     \<and> restaurant_file (snd (delete_comment rt idx st))
       = (if RESTAURANT_FILE rt \<in> removable_paths rt (referenced_files (xs ! i))
          then Missing else restaurant_file st)
     \<and> length (read_comments (snd (delete_comment rt idx st))) = length xs - 1
     \<and> (\<forall>j<i. read_comments (snd (delete_comment rt idx st)) ! j = serialize (xs ! j))
     \<and> (\<forall>j. i \<le> j \<and> Suc j < length xs
          \<longrightarrow> read_comments (snd (delete_comment rt idx st)) ! j = serialize (xs ! Suc j))
     \<and> (i = 0 \<and> 1 < length xs
          \<longrightarrow> read_comments (snd (delete_comment rt idx st)) ! 0 = serialize (xs ! 1))"
    using len before after first
    by (simp add: d delete_each_disk delete_each_restaurant_file)
  then show ?thesis
    unfolding xs_def ys_def .
qed

text \<open>
  The review at index 0 references a photo and an avatar; the icon stays.
\<close>

theorem delete_comment_removes_record_witness:
  "parseInt (ustr ''0'') = Fin (of_nat 0)
   \<and> 0 < length (read_comments example_state)
   \<and> read_comments example_state ! 0 \<noteq> JNull
   \<and> write_ok example_runtime
   \<and> fst (delete_comment example_runtime (ustr ''0'') example_state)
       = Inr \<lparr>code = 200, msg = ''Comment deleted successfully'',
              data = Some (JArr defaultComments)\<rparr>
   \<and> read_comments (snd (delete_comment example_runtime (ustr ''0'') example_state)) ! 0
       = serialize (read_comments example_state ! 1)
   \<and> disk (snd (delete_comment example_runtime (ustr ''0'') example_state))
       = {ustr ''/srv/app/uploads/icons/logo-16-q1.png''}"
proof -
  have h2: "0 < length (read_comments example_state)"
    by (simp add: read_comments_example)
  have h3: "read_comments example_state ! 0 \<noteq> JNull"
    by (simp add: read_comments_example example_review_def)
  have l: "0 = 0 \<and> 1 < length (read_comments example_state)"
    by (simp add: read_comments_example defaultComments_def)
  note T = delete_comment_removes_record [OF parseInt_0 h2 h3 write_ok_example]
  have s: "map serialize defaultComments = defaultComments"
    by (simp add: defaultComments_def)
  have r: "fst (delete_comment example_runtime (ustr ''0'') example_state)
       = Inr \<lparr>code = 200, msg = ''Comment deleted successfully'',
              data = Some (JArr defaultComments)\<rparr>"
    using T [THEN conjunct1] by (simp add: read_comments_example s)
  note first = T [THEN conjunct2, THEN conjunct2, THEN conjunct2, THEN conjunct2, THEN conjunct2,
      THEN conjunct2, THEN conjunct2, THEN mp, OF l]
  have ref: "referenced_files (read_comments example_state ! 0)
      = [JStr (ustr ''uploads/review-images/p1-17-z9.jpg''),
         JStr (ustr ''uploads/avatars/ann-17-k3.png'')]"
    by (simp add: read_comments_example example_review_def referenced_files_def ustr_def)
  have "removable_paths example_runtime (referenced_files (read_comments example_state ! 0))
      = {ustr ''/srv/app/uploads/review-images/p1-17-z9.jpg'',
         ustr ''/srv/app/uploads/avatars/ann-17-k3.png''}"
    unfolding ref removable_paths_def by (auto simp: example_runtime_def ustr_def)
  with T [THEN conjunct2, THEN conjunct2, THEN conjunct1]
  have "disk (snd (delete_comment example_runtime (ustr ''0'') example_state))
      = disk example_state - {ustr ''/srv/app/uploads/review-images/p1-17-z9.jpg'',
         ustr ''/srv/app/uploads/avatars/ann-17-k3.png''}"
    by simp
  then have d: "disk (snd (delete_comment example_runtime (ustr ''0'') example_state))
       = {ustr ''/srv/app/uploads/icons/logo-16-q1.png''}"
    by (simp add: example_state_def ustr_def)
  show ?thesis
    by (intro conjI parseInt_0 h2 h3 write_ok_example r first d)
qed

text \<open>
  A stored list whose only record is \<open>null\<close>, as PUT /api/comments stores it:
  the index 0 is valid, and the handler ends with a TypeError where it reads the
  images of the record. No record has been removed.
\<close>

theorem delete_comment_null_record_counterexample:
  "read_comments (snd (put_comments example_runtime (Some (JArr [JNull])) seed_state)) = [JNull]
   \<and> parseInt (ustr ''0'') = Fin 0
   \<and> delete_comment example_runtime (ustr ''0'')
        (snd (put_comments example_runtime (Some (JArr [JNull])) seed_state))
       = (Inl TypeError, snd (put_comments example_runtime (Some (JArr [JNull])) seed_state))"
proof -
  have p: "snd (put_comments example_runtime (Some (JArr [JNull])) seed_state)
      = seed_state\<lparr>comments_file := Doc [JNull]\<rparr>"
    by (simp add: put_comments_def write_ok_example)
  have z: "parseInt (ustr ''0'') = Fin 0"
    by (simp add: ustr_def parseInt_eval)
  have d: "delete_comment example_runtime (ustr ''0'') (seed_state\<lparr>comments_file := Doc [JNull]\<rparr>)
      = (Inl TypeError, seed_state\<lparr>comments_file := Doc [JNull]\<rparr>)"
    by (simp add: delete_comment_def Let_def z element_at_def)
  show ?thesis
    unfolding p using z d by simp
qed



text \<open>
  C10. When \<open>parseInt\<close> of the index parameter is NaN, neither comparison of the
  range check holds, the record read is \<open>undefined\<close>, and the handler ends with
  a TypeError in place of the envelope of code 400; this holds for every stored
  list, the non-empty ones included. Nothing has been changed by then.
\<close>

theorem delete_comment_nan_index:
  assumes "parseInt idx = NaN"
  shows "\<not> num_lt (parseInt idx) (Fin 0)
     \<and> \<not> num_ge (parseInt idx) (Fin (of_nat (length (read_comments st))))
     \<and> delete_comment rt idx st = (Inl TypeError, st)"
  using assms by (simp add: delete_comment_def Let_def element_at_def)

text \<open>
  The index \<open>abc\<close> on the two seed reviews.
\<close>

theorem delete_comment_nan_index_witness:
  "parseInt (ustr ''abc'') = NaN
   \<and> read_comments seed_state \<noteq> []
   \<and> delete_comment example_runtime (ustr ''abc'') seed_state = (Inl TypeError, seed_state)"
proof -
  have p: "parseInt (ustr ''abc'') = NaN"
    by (simp add: ustr_def parseInt_eval)
  have n: "read_comments seed_state \<noteq> []"
    by (simp add: read_comments_seed defaultComments_def)
  show ?thesis
    by (intro conjI p n delete_comment_nan_index [OF p, THEN conjunct2, THEN conjunct2])
qed
end
